theory Spec2Isabelle
  imports Main "HOL-Library.Word"
begin

section \<open>Strings, status codes and errors\<close>

text \<open>
  A JavaScript string is a sequence of UTF-16 code units and \<open>.length\<close> counts code
  units, so a string is a list of 16-bit words and \<open>length\<close> is the source's
  \<open>.length\<close>. \<open>js\<close> embeds an ASCII literal.
\<close>

type_synonym js_string = "16 word list"

definition js :: "string \<Rightarrow> js_string" where
  "js s = map (\<lambda>c. of_nat (of_char c)) s"

text \<open>The members of \<open>StatusCodes\<close> (package http-status-codes) that the source uses.\<close>

definition OK :: nat where "OK = 200"
definition CREATED :: nat where "CREATED = 201"
definition NO_CONTENT :: nat where "NO_CONTENT = 204"
definition UNAUTHORIZED :: nat where "UNAUTHORIZED = 401"
definition NOT_FOUND :: nat where "NOT_FOUND = 404"

text \<open>
  What the source throws: \<open>new Error(message)\<close>, \<open>new HttpError(status, message,
  component)\<close>, the \<open>TypeError\<close> of reading a property of \<open>undefined\<close>, and a
  rejection coming from the document store (schema validation, unique index).
\<close>

datatype error =
    Error js_string
  | HttpError nat js_string js_string
  | TypeError
  | StoreError

fun httpStatusCode :: "error \<Rightarrow> nat option" where
  "httpStatusCode (HttpError status message component) = Some status"
| "httpStatusCode e = None"

fun component :: "error \<Rightarrow> js_string option" where
  "component (HttpError status message origin) = Some origin"
| "component e = None"

section \<open>The user entity (user.entity.ts)\<close>

record User =
  email :: js_string
  avatarUri :: js_string
  name :: js_string
  password :: js_string

text \<open>A stored user document: the fields of the entity and the \<open>_id\<close> the store gave it.\<close>

record UserDocument = User +
  doc_id :: nat

text \<open>The constructor copies the four fields of its argument, the raw password among them.\<close>

definition UserEntity :: "'a User_scheme \<Rightarrow> User" where
  "UserEntity data =
     \<lparr>email = email data, avatarUri = avatarUri data, name = name data,
      password = password data\<rparr>"

text \<open>The message of the error of \<open>setPassword\<close>, in UTF-16 code units.\<close>

definition password_length_message :: js_string where
  "password_length_message =
     [0x414, 0x43B, 0x438, 0x43D, 0x430, 0x20, 0x43F, 0x430, 0x440, 0x43E, 0x43B, 0x44F,
      0x20, 0x434, 0x43E, 0x43B, 0x436, 0x43D, 0x430, 0x20, 0x431, 0x44B, 0x442, 0x44C,
      0x20, 0x43D, 0x435, 0x20, 0x43C, 0x435, 0x43D, 0x435, 0x435, 0x20, 0x36, 0x20,
      0x438, 0x20, 0x43D, 0x435, 0x20, 0x431, 0x43E, 0x43B, 0x435, 0x435, 0x20, 0x31,
      0x32, 0x20, 0x441, 0x438, 0x43C, 0x432, 0x43E, 0x43B, 0x43E, 0x432]"

text \<open>
  \<open>createSHA256\<close> lives in utils/common.js, which is not part of the sources at hand:
  every definition that hashes takes it as its first argument.
\<close>

type_synonym hash = "js_string \<Rightarrow> js_string \<Rightarrow> js_string"

definition setPassword :: "hash \<Rightarrow> js_string \<Rightarrow> js_string \<Rightarrow> User \<Rightarrow> error + User" where
  "setPassword createSHA256 pw salt this =
     (if length pw < 6 \<or> length pw > 12 then Inl (Error password_length_message)
      else Inr (this\<lparr>password := createSHA256 pw salt\<rparr>))"

definition getPassword :: "'a User_scheme \<Rightarrow> js_string" where
  "getPassword this = password this"

definition verifyPassword :: "hash \<Rightarrow> js_string \<Rightarrow> js_string \<Rightarrow> 'a User_scheme \<Rightarrow> bool" where
  "verifyPassword createSHA256 pw salt this =
     (let hashPassword = createSHA256 pw salt in hashPassword = password this)"

section \<open>The users collection\<close>

text \<open>
  \<open>userModel\<close> is the model of the collection \<open>users\<close>. The state holds its documents
  in insertion order, the next \<open>_id\<close>, every call made to the model, and the lines
  given to the logger. \<open>userModel.create\<close> stores the entity when the store accepts
  it and rejects otherwise; what the store accepts (the validators declared on the
  fields, the unique index on \<open>email\<close>) is the parameter \<open>accepts\<close>.
  \<open>findOne({email})\<close> answers the first document with that email, or null.
\<close>

datatype db_call = Create User | FindById nat | FindOne js_string

record world =
  docs :: "UserDocument list"
  next_id :: nat
  calls :: "db_call list"
  logged :: "js_string list"

type_synonym acceptance = "UserDocument list \<Rightarrow> User \<Rightarrow> bool"

definition userModel_create :: "acceptance \<Rightarrow> User \<Rightarrow> world \<Rightarrow> (error + UserDocument) \<times> world" where
  "userModel_create accepts user st =
     (let st1 = st\<lparr>calls := calls st @ [Create user]\<rparr> in
      if accepts (docs st) user
      then (let d = \<lparr>email = email user, avatarUri = avatarUri user, name = name user,
                      password = password user, doc_id = next_id st\<rparr>
            in (Inr d, st1\<lparr>docs := docs st @ [d], next_id := Suc (next_id st)\<rparr>))
      else (Inl StoreError, st1))"

definition userModel_findById :: "nat \<Rightarrow> world \<Rightarrow> UserDocument option \<times> world" where
  "userModel_findById i st =
     (find (\<lambda>d. doc_id d = i) (docs st), st\<lparr>calls := calls st @ [FindById i]\<rparr>)"

definition userModel_findOne :: "js_string \<Rightarrow> world \<Rightarrow> UserDocument option \<times> world" where
  "userModel_findOne e st =
     (find (\<lambda>d. email d = e) (docs st), st\<lparr>calls := calls st @ [FindOne e]\<rparr>)"

section \<open>UserService\<close>

record LoginUserDto =
  login_email :: js_string
  login_password :: js_string

definition created_user_prefix :: js_string where
  "created_user_prefix =
     [0x421, 0x43E, 0x437, 0x434, 0x430, 0x43D, 0x20, 0x43F, 0x43E, 0x43B, 0x44C, 0x437,
      0x43E, 0x432, 0x430, 0x442, 0x435, 0x43B, 0x44C, 0x3A, 0x20]"

definition logger_info :: "js_string \<Rightarrow> world \<Rightarrow> world" where
  "logger_info line st = st\<lparr>logged := logged st @ [line]\<rparr>"

definition UserService_create ::
  "acceptance \<Rightarrow> hash \<Rightarrow> User \<Rightarrow> js_string \<Rightarrow> world \<Rightarrow> (error + UserDocument) \<times> world" where
  "UserService_create accepts createSHA256 dto salt st =
     (let user = UserEntity dto in
      case setPassword createSHA256 (password dto) salt user of
        Inl e \<Rightarrow> (Inl e, st)
      | Inr user' \<Rightarrow>
          (case userModel_create accepts user' st of
             (Inl e, st1) \<Rightarrow> (Inl e, st1)
           | (Inr result, st1) \<Rightarrow>
               (Inr result, logger_info (created_user_prefix @ email user') st1)))"

definition UserService_findById :: "nat \<Rightarrow> world \<Rightarrow> UserDocument option \<times> world" where
  "UserService_findById i st = userModel_findById i st"

definition UserService_findByEmail :: "js_string \<Rightarrow> world \<Rightarrow> UserDocument option \<times> world" where
  "UserService_findByEmail e st = userModel_findOne e st"

definition UserService_findOrCreate ::
  "acceptance \<Rightarrow> hash \<Rightarrow> User \<Rightarrow> js_string \<Rightarrow> world \<Rightarrow> (error + UserDocument) \<times> world" where
  "UserService_findOrCreate accepts createSHA256 dto salt st =
     (case UserService_findByEmail (email dto) st of
        (Some existedUser, st1) \<Rightarrow> (Inr existedUser, st1)
      | (None, st1) \<Rightarrow> UserService_create accepts createSHA256 dto salt st1)"

definition UserService_verifyUser ::
  "hash \<Rightarrow> LoginUserDto \<Rightarrow> js_string \<Rightarrow> world \<Rightarrow> UserDocument option \<times> world" where
  "UserService_verifyUser createSHA256 dto salt st =
     (case UserService_findByEmail (login_email dto) st of
        (None, st1) \<Rightarrow> (None, st1)
      | (Some user, st1) \<Rightarrow>
          (if \<not> verifyPassword createSHA256 (login_password dto) salt user then (None, st1)
           else (Some user, st1)))"

section \<open>The pattern of the email field\<close>

text \<open>
  The field \<open>email\<close> is declared with
  \<^verbatim>\<open>match: /^([\w-\\.]+@([\w-]+\.)+[\w-]{2,4})?$/\<close>.
  A pattern is a regular expression over code units. Between \<open>^\<close> and \<open>$\<close>, and
  with no flag, the expression matches a string exactly when the whole string is in the
  language of the pattern; \<open>matches\<close> decides that with derivatives, \<open>lang\<close> is
  the language. In the class \<open>[\w-\\.]\<close> the hyphen follows a class escape and
  therefore stands for itself: the class is \<open>\w\<close>, hyphen, backslash and dot.
\<close>

datatype class_atom = WordChar | Lit "16 word"

datatype pattern =
    Never
  | Empty
  | Chr "16 word"
  | Class "class_atom list"
  | Cat pattern pattern
  | Alt pattern pattern
  | Star pattern

definition is_word_char :: "16 word \<Rightarrow> bool" where
  "is_word_char c =
     ((0x61 \<le> c \<and> c \<le> 0x7A) \<or> (0x41 \<le> c \<and> c \<le> 0x5A) \<or>
      (0x30 \<le> c \<and> c \<le> 0x39) \<or> c = 0x5F)"

fun in_atom :: "16 word \<Rightarrow> class_atom \<Rightarrow> bool" where
  "in_atom c WordChar = is_word_char c"
| "in_atom c (Lit d) = (c = d)"

definition in_class :: "16 word \<Rightarrow> class_atom list \<Rightarrow> bool" where
  "in_class c atoms = list_ex (in_atom c) atoms"

text \<open>The quantifiers \<open>?\<close>, \<open>+\<close> and \<open>{m,n}\<close>.\<close>

definition Opt :: "pattern \<Rightarrow> pattern" where
  "Opt r = Alt r Empty"

definition Plus :: "pattern \<Rightarrow> pattern" where
  "Plus r = Cat r (Star r)"

fun Rep :: "nat \<Rightarrow> nat \<Rightarrow> pattern \<Rightarrow> pattern" where
  "Rep 0 0 r = Empty"
| "Rep 0 (Suc n) r = Opt (Cat r (Rep 0 n r))"
| "Rep (Suc m) 0 r = Never"
| "Rep (Suc m) (Suc n) r = Cat r (Rep m n r)"

fun nullable :: "pattern \<Rightarrow> bool" where
  "nullable Never = False"
| "nullable Empty = True"
| "nullable (Chr c) = False"
| "nullable (Class atoms) = False"
| "nullable (Cat r s) = (nullable r \<and> nullable s)"
| "nullable (Alt r s) = (nullable r \<or> nullable s)"
| "nullable (Star r) = True"

fun deriv :: "16 word \<Rightarrow> pattern \<Rightarrow> pattern" where
  "deriv c Never = Never"
| "deriv c Empty = Never"
| "deriv c (Chr d) = (if c = d then Empty else Never)"
| "deriv c (Class atoms) = (if in_class c atoms then Empty else Never)"
| "deriv c (Cat r s) =
     (if nullable r then Alt (Cat (deriv c r) s) (deriv c s) else Cat (deriv c r) s)"
| "deriv c (Alt r s) = Alt (deriv c r) (deriv c s)"
| "deriv c (Star r) = Cat (deriv c r) (Star r)"

fun matches :: "pattern \<Rightarrow> js_string \<Rightarrow> bool" where
  "matches r [] = nullable r"
| "matches r (c # cs) = matches (deriv c r) cs"

definition conc :: "js_string set \<Rightarrow> js_string set \<Rightarrow> js_string set" where
  "conc A B = {xs @ ys | xs ys. xs \<in> A \<and> ys \<in> B}"

inductive_set star :: "js_string set \<Rightarrow> js_string set" for A :: "js_string set" where
  star_nil: "[] \<in> star A"
| star_app: "xs \<in> A \<Longrightarrow> ys \<in> star A \<Longrightarrow> xs @ ys \<in> star A"

fun lang :: "pattern \<Rightarrow> js_string set" where
  "lang Never = {}"
| "lang Empty = {[]}"
| "lang (Chr c) = {[c]}"
| "lang (Class atoms) = {[c] | c. in_class c atoms}"
| "lang (Cat r s) = conc (lang r) (lang s)"
| "lang (Alt r s) = lang r \<union> lang s"
| "lang (Star r) = star (lang r)"

text \<open>The body of the expression, between \<open>^\<close> and \<open>$\<close>.\<close>

definition email_pattern :: pattern where
  "email_pattern =
     Opt (Cat (Plus (Class [WordChar, Lit 0x2D, Lit 0x5C, Lit 0x2E]))
         (Cat (Chr 0x40)
         (Cat (Plus (Cat (Plus (Class [WordChar, Lit 0x2D])) (Chr 0x2E)))
              (Rep 2 4 (Class [WordChar, Lit 0x2D])))))"

definition email_match :: "js_string \<Rightarrow> bool" where
  "email_match s = matches email_pattern s"

section \<open>Requests, responses and the middleware chain (controller)\<close>

text \<open>
  A request as the handlers and middlewares read it: \<open>req.params.id\<close>,
  \<open>req.body\<close>, the \<open>authorization\<close> header and \<open>req.user\<close>, which is undefined
  until a middleware has set it.
\<close>

record RequestUser =
  user_id :: js_string

record 'b Request =
  params_id :: js_string
  body :: 'b
  authorization :: "js_string option"
  user :: "RequestUser option"

record 'd Response =
  statusCode :: nat
  contentType :: "js_string option"
  data :: "'d option"

text \<open>
  A middleware calls \<open>next()\<close>, writes a response itself, or throws;
  \<open>asyncHandler\<close> turns what is thrown into \<open>next(err)\<close>, which ends the chain
  with that error. The middlewares are stateless pre-conditions: they read the state
  of the store and do not change it. A handler ends with a response or with an error
  and may change the state.
\<close>

datatype ('b, 'd) outcome = Next "'b Request" | Sent "'d Response" | Failed error

type_synonym ('s, 'b, 'd) middleware = "'s \<Rightarrow> 'b Request \<Rightarrow> ('b, 'd) outcome"

type_synonym ('s, 'b, 'd) handler = "'b Request \<Rightarrow> 's \<Rightarrow> (error + 'd Response) \<times> 's"

datatype HttpMethod = Get | Post | Delete | Patch | Put

record ('s, 'b, 'd) Route =
  path :: js_string
  httpMethod :: HttpMethod
  handler :: "('s, 'b, 'd) handler"
  middlewares :: "('s, 'b, 'd) middleware list option"

text \<open>
  The stack that the router runs for a route: the middlewares in order, then the
  handler. The first middleware that does not call \<open>next()\<close> ends the chain.
\<close>

fun run_stack ::
  "('s, 'b, 'd) middleware list \<Rightarrow> ('s, 'b, 'd) handler \<Rightarrow> ('s, 'b, 'd) handler" where
  "run_stack [] routeHandler req st = routeHandler req st"
| "run_stack (m # ms) routeHandler req st =
     (case m st req of
        Next req' \<Rightarrow> run_stack ms routeHandler req' st
      | Sent res \<Rightarrow> (Inr res, st)
      | Failed e \<Rightarrow> (Inl e, st))"

text \<open>The middlewares of a stack alone: the request that reaches what follows them.\<close>

fun run_middlewares :: "('s, 'b, 'd) middleware list \<Rightarrow> ('s, 'b, 'd) middleware" where
  "run_middlewares [] st req = Next req"
| "run_middlewares (m # ms) st req =
     (case m st req of
        Next req' \<Rightarrow> run_middlewares ms st req'
      | Sent res \<Rightarrow> Sent res
      | Failed e \<Rightarrow> Failed e)"

text \<open>
  \<open>Controller.addRoute\<close>: what the router runs for a request to a registered route.
\<close>

definition addRoute :: "('s, 'b, 'd) Route \<Rightarrow> ('s, 'b, 'd) handler" where
  "addRoute route =
     (let routeHandler = handler route in
      case middlewares route of
        Some mws \<Rightarrow> run_stack mws routeHandler
      | None \<Rightarrow> run_stack [] routeHandler)"

definition send :: "nat \<Rightarrow> 'd \<Rightarrow> 'd Response" where
  "send status d =
     \<lparr>statusCode = status, contentType = Some (js ''application/json''), data = Some d\<rparr>"

definition created :: "'d \<Rightarrow> 'd Response" where
  "created d = send CREATED d"

definition noContent :: "'d Response" where
  "noContent = \<lparr>statusCode = NO_CONTENT, contentType = None, data = None\<rparr>"

definition ok :: "'d \<Rightarrow> 'd Response" where
  "ok d = send OK d"

text \<open>The status with which a request ends, as a response or as an HTTP error.\<close>

definition response_status :: "error + 'd Response \<Rightarrow> nat option" where
  "response_status r = (case r of Inl e \<Rightarrow> httpStatusCode e | Inr res \<Rightarrow> Some (statusCode res))"

section \<open>The services of MovieController\<close>

text \<open>
  The controller receives its services by injection; their classes are not part of the
  sources at hand. Each is a record of the methods the handlers below call, over a
  state \<open>'s\<close> of the document store: lookups read it, and a method that writes
  answers the new state or the error it throws.
\<close>

record ('s, 'm) MovieServiceInterface =
  exists :: "'s \<Rightarrow> js_string \<Rightarrow> bool"
  findById :: "'s \<Rightarrow> js_string \<Rightarrow> 'm option"

record ('s, 'b, 'c) CommentServiceInterface =
  create :: "'s \<Rightarrow> js_string \<Rightarrow> js_string \<Rightarrow> 'b \<Rightarrow> error + ('c option \<times> 's)"

record 'm ToWatch =
  tw_user :: js_string
  tw_list :: "'m list"

record ('s, 'm) ToWatchServiceInterface =
  getToWatch :: "'s \<Rightarrow> js_string \<Rightarrow> 'm ToWatch option"
  addToToWatch :: "'s \<Rightarrow> js_string \<Rightarrow> js_string \<Rightarrow> error + 's"
  deleteFromToWatch :: "'s \<Rightarrow> js_string \<Rightarrow> js_string \<Rightarrow> error + 's"

record ToWatchDto =
  movieId :: js_string

section \<open>MovieController (movie.controller.ts)\<close>

definition movie_not_found :: js_string where
  "movie_not_found =
     [0x424, 0x438, 0x43B, 0x44C, 0x43C, 0x20, 0x43D, 0x435, 0x20, 0x43D, 0x430, 0x439,
      0x434, 0x435, 0x43D]"

definition comment_not_found :: js_string where
  "comment_not_found =
     [0x41A, 0x43E, 0x43C, 0x43C, 0x435, 0x43D, 0x442, 0x430, 0x440, 0x438, 0x439, 0x20,
      0x43D, 0x435, 0x20, 0x43D, 0x430, 0x439, 0x434, 0x435, 0x43D]"

text \<open>
  Modelled from the spec: \<open>fillDto\<close> of utils/common.js is missing; the spec calls it
  a response mapper, a projection from the internal entity to the outward-facing
  shape. The projection of one entity is the parameter \<open>project\<close>; an array is
  projected element by element.
\<close>

definition fillDto :: "('m \<Rightarrow> 'r) \<Rightarrow> 'm list \<Rightarrow> 'r list" where
  "fillDto project plainObject = map project plainObject"


definition getToWatchList ::
  "('s, 'm) ToWatchServiceInterface \<Rightarrow> ('m \<Rightarrow> 'r) \<Rightarrow> ('s, 'b, 'r list) handler" where
  "getToWatchList toWatchService project req st =
     (case user req of
        None \<Rightarrow> (Inl TypeError, st)
      | Some u \<Rightarrow>
          (let result = getToWatch toWatchService st (user_id u) in
           (Inr (ok (fillDto project (case result of None \<Rightarrow> [] | Some doc \<Rightarrow> tw_list doc))),
            st)))"

definition addToToWatchList ::
  "('s, 'm) MovieServiceInterface \<Rightarrow> ('s, 'n) ToWatchServiceInterface \<Rightarrow>
   ('s, ToWatchDto, 'd) handler" where
  "addToToWatchList movieService toWatchService req st =
     (if exists movieService st (movieId (body req))
      then (Inl (HttpError NOT_FOUND movie_not_found (js ''MovieController'')), st)
      else (case user req of
              None \<Rightarrow> (Inl TypeError, st)
            | Some u \<Rightarrow>
                (case addToToWatch toWatchService st (user_id u) (movieId (body req)) of
                   Inl e \<Rightarrow> (Inl e, st)
                 | Inr st' \<Rightarrow> (Inr noContent, st'))))"

definition deleteFromToWatchList ::
  "('s, 'm) MovieServiceInterface \<Rightarrow> ('s, 'n) ToWatchServiceInterface \<Rightarrow>
   ('s, ToWatchDto, 'd) handler" where
  "deleteFromToWatchList movieService toWatchService req st =
     (if exists movieService st (movieId (body req))
      then (Inl (HttpError NOT_FOUND movie_not_found (js ''MovieController'')), st)
      else (case user req of
              None \<Rightarrow> (Inl TypeError, st)
            | Some u \<Rightarrow>
                (case deleteFromToWatch toWatchService st (user_id u) (movieId (body req)) of
                   Inl e \<Rightarrow> (Inl e, st)
                 | Inr st' \<Rightarrow> (Inr noContent, st'))))"

definition createComment ::
  "('s, 'b, 'c) CommentServiceInterface \<Rightarrow> ('c \<Rightarrow> 'd) \<Rightarrow> ('s, 'b, 'd) handler" where
  "createComment commentService project req st =
     (case user req of
        None \<Rightarrow> (Inl TypeError, st)
      | Some u \<Rightarrow>
          (case create commentService st (params_id req) (user_id u) (body req) of
             Inl e \<Rightarrow> (Inl e, st)
           | Inr (None, st') \<Rightarrow>
               (Inl (HttpError NOT_FOUND comment_not_found (js ''MovieController'')), st')
           | Inr (Some comment, st') \<Rightarrow> (Inr (created (project comment)), st')))"

text \<open>
  The routes of the constructor that the properties below are about. The middleware
  classes are not part of the sources at hand: each route takes the instances it
  lists, in the order of its \<open>middlewares\<close> array.
\<close>

definition route_getToWatchList ::
  "('s, 'b, 'r list) middleware \<Rightarrow> ('s, 'm) ToWatchServiceInterface \<Rightarrow> ('m \<Rightarrow> 'r) \<Rightarrow>
   ('s, 'b, 'r list) Route" where
  "route_getToWatchList authorizationMiddleware toWatchService project =
     \<lparr>path = js ''/to-watch'', httpMethod = Get,
      handler = getToWatchList toWatchService project,
      middlewares = Some [authorizationMiddleware]\<rparr>"

definition route_addToToWatchList ::
  "('s, ToWatchDto, 'd) middleware \<Rightarrow> ('s, ToWatchDto, 'd) middleware \<Rightarrow>
   ('s, 'm) MovieServiceInterface \<Rightarrow> ('s, 'n) ToWatchServiceInterface \<Rightarrow>
   ('s, ToWatchDto, 'd) Route" where
  "route_addToToWatchList authorizationMiddleware validateAddToToWatchDtoMiddleware
       movieService toWatchService =
     \<lparr>path = js ''/to-watch'', httpMethod = Post,
      handler = addToToWatchList movieService toWatchService,
      middlewares = Some [authorizationMiddleware, validateAddToToWatchDtoMiddleware]\<rparr>"

definition route_deleteFromToWatchList ::
  "('s, ToWatchDto, 'd) middleware \<Rightarrow> ('s, ToWatchDto, 'd) middleware \<Rightarrow>
   ('s, 'm) MovieServiceInterface \<Rightarrow> ('s, 'n) ToWatchServiceInterface \<Rightarrow>
   ('s, ToWatchDto, 'd) Route" where
  "route_deleteFromToWatchList authorizationMiddleware validateDeleteFromToWatchDtoMiddleware
       movieService toWatchService =
     \<lparr>path = js ''/to-watch'', httpMethod = Delete,
      handler = deleteFromToWatchList movieService toWatchService,
      middlewares = Some [authorizationMiddleware, validateDeleteFromToWatchDtoMiddleware]\<rparr>"

definition route_createComment ::
  "('s, 'b, 'd) middleware \<Rightarrow> ('s, 'b, 'd) middleware \<Rightarrow> ('s, 'b, 'd) middleware \<Rightarrow>
   ('s, 'b, 'd) middleware \<Rightarrow> ('s, 'b, 'c) CommentServiceInterface \<Rightarrow> ('c \<Rightarrow> 'd) \<Rightarrow>
   ('s, 'b, 'd) Route" where
  "route_createComment authorizationMiddleware validateObjectIdMiddleware
       validateCommentDtoMiddleware movieExistsMiddleware commentService project =
     \<lparr>path = js ''/:id/comments'', httpMethod = Post,
      handler = createComment commentService project,
      middlewares = Some [authorizationMiddleware, validateObjectIdMiddleware,
                          validateCommentDtoMiddleware, movieExistsMiddleware]\<rparr>"


section \<open>Middlewares and the to-watch service, from the specification\<close>

text \<open>
  Modelled from the spec: the class \<open>DocumentExistsMiddleware\<close> is missing. The spec:
  \<^emph>\<open>Document-existence check: issues a lookup for a referenced document (movie) and
  fails with Not-Found if absent.\<close> The controller builds it from the movie service,
  the entity name and the parameter name \<open>id\<close>. The wording of the error and the
  component it names are not given: they are the parameters \<open>message\<close> and
  \<open>origin\<close>.
\<close>

definition DocumentExistsMiddleware ::
  "('s \<Rightarrow> js_string \<Rightarrow> bool) \<Rightarrow> js_string \<Rightarrow> (js_string \<Rightarrow> js_string \<Rightarrow> js_string) \<Rightarrow>
   js_string \<Rightarrow> ('s, 'b, 'd) middleware" where
  "DocumentExistsMiddleware service_exists entityName message origin st req =
     (if service_exists st (params_id req) then Next req
      else Failed (HttpError NOT_FOUND (message entityName (params_id req)) origin))"

text \<open>
  Modelled from the spec: the class \<open>AuthorizeMiddleware\<close> is missing. The spec:
  \<^emph>\<open>Authorization check: requires and decodes a bearer credential before allowing the
  handler to run\<close>, and authorization errors are HTTP 401. Decoding the credential is
  the parameter \<open>decode\<close>; a decoded credential becomes \<open>req.user\<close>.
\<close>

definition AuthorizeMiddleware ::
  "(js_string \<Rightarrow> RequestUser option) \<Rightarrow> js_string \<Rightarrow> js_string \<Rightarrow> ('s, 'b, 'd) middleware" where
  "AuthorizeMiddleware decode message origin st req =
     (case authorization req of
        None \<Rightarrow> Failed (HttpError UNAUTHORIZED message origin)
      | Some credential \<Rightarrow>
          (case decode credential of
             None \<Rightarrow> Failed (HttpError UNAUTHORIZED message origin)
           | Some payload \<Rightarrow> Next (req\<lparr>user := Some payload\<rparr>)))"

text \<open>
  Modelled from the spec: the class behind \<open>ToWatchServiceInterface\<close> is missing. The
  spec: \<^emph>\<open>ToWatch list: per-user ordered/unordered set of movie references.
  Invariant: a movie id may appear at most once per user's list.\<close> The collection
  maps a user id to the list of movie ids of that user. The spec leaves open whether
  adding an id twice, or removing an absent one, is a no-op or an error: \<open>strict\<close>
  chooses the error.
\<close>

type_synonym to_watch_store = "js_string \<rightharpoonup> js_string list"

text \<open>
  Modelled from the spec: \<open>getToWatch\<close> of the missing to-watch service answers the
  list of the user, or null when the user has none.
\<close>

definition ToWatchService_getToWatch ::
  "to_watch_store \<Rightarrow> js_string \<Rightarrow> js_string ToWatch option" where
  "ToWatchService_getToWatch st userId =
     (case st userId of
        None \<Rightarrow> None
      | Some ids \<Rightarrow> Some \<lparr>tw_user = userId, tw_list = ids\<rparr>)"

text \<open>
  Modelled from the spec: \<open>addToToWatch\<close> of the missing to-watch service. The list
  is a set of movie references, so an id that is already on the list is not put on it
  again; the first id of a user creates the list.
\<close>

definition ToWatchService_addToToWatch ::
  "bool \<Rightarrow> to_watch_store \<Rightarrow> js_string \<Rightarrow> js_string \<Rightarrow> error + to_watch_store" where
  "ToWatchService_addToToWatch strict st userId movie =
     (case st userId of
        None \<Rightarrow> Inr (st(userId \<mapsto> [movie]))
      | Some ids \<Rightarrow>
          (if movie \<in> set ids then (if strict then Inl StoreError else Inr st)
           else Inr (st(userId \<mapsto> ids @ [movie]))))"

text \<open>
  Modelled from the spec: \<open>deleteFromToWatch\<close> of the missing to-watch service takes
  the movie reference off the list of the user.
\<close>

definition ToWatchService_deleteFromToWatch ::
  "bool \<Rightarrow> to_watch_store \<Rightarrow> js_string \<Rightarrow> js_string \<Rightarrow> error + to_watch_store" where
  "ToWatchService_deleteFromToWatch strict st userId movie =
     (case st userId of
        None \<Rightarrow> (if strict then Inl StoreError else Inr st)
      | Some ids \<Rightarrow>
          (if movie \<in> set ids then Inr (st(userId \<mapsto> removeAll movie ids))
           else (if strict then Inl StoreError else Inr st)))"

text \<open>
  Modelled from the spec: the missing to-watch service, as the controller receives it.
\<close>

definition ToWatchService :: "bool \<Rightarrow> (to_watch_store, js_string) ToWatchServiceInterface" where
  "ToWatchService strict =
     \<lparr>getToWatch = ToWatchService_getToWatch,
      addToToWatch = ToWatchService_addToToWatch strict,
      deleteFromToWatch = ToWatchService_deleteFromToWatch strict\<rparr>"

text \<open>The list of a user; a user without a document has the empty list.\<close>

definition to_watch_of :: "to_watch_store \<Rightarrow> js_string \<Rightarrow> js_string list" where
  "to_watch_of st userId = (case st userId of None \<Rightarrow> [] | Some ids \<Rightarrow> ids)"

text \<open>A sequence of requests to POST /to-watch and DELETE /to-watch, served in order.\<close>

datatype to_watch_request =
    PostToWatch "ToWatchDto Request"
  | DeleteToWatch "ToWatchDto Request"

fun serve_to_watch ::
  "('s, ToWatchDto, unit) middleware \<Rightarrow> ('s, ToWatchDto, unit) middleware \<Rightarrow>
   ('s, ToWatchDto, unit) middleware \<Rightarrow> ('s, 'm) MovieServiceInterface \<Rightarrow>
   ('s, 'n) ToWatchServiceInterface \<Rightarrow> to_watch_request list \<Rightarrow> 's \<Rightarrow> 's" where
  "serve_to_watch auth validateAdd validateDelete movieService toWatchService [] st = st"
| "serve_to_watch auth validateAdd validateDelete movieService toWatchService
       (PostToWatch req # reqs) st =
     serve_to_watch auth validateAdd validateDelete movieService toWatchService reqs
       (snd (addRoute (route_addToToWatchList auth validateAdd movieService toWatchService)
          req st))"
| "serve_to_watch auth validateAdd validateDelete movieService toWatchService
       (DeleteToWatch req # reqs) st =
     serve_to_watch auth validateAdd validateDelete movieService toWatchService reqs
       (snd (addRoute
          (route_deleteFromToWatchList auth validateDelete movieService toWatchService)
          req st))"

section \<open>Sample data\<close>

text \<open>
  Concrete values on which the theorems below are instantiated: a store that accepts
  every entity, a stand-in for the hash that answers 64 code units as a hexadecimal
  SHA-256 digest does, two registration requests and the empty collection.
\<close>

definition accept_all :: acceptance where
  "accept_all ds entity = True"

definition sample_hash :: hash where
  "sample_hash pw salt = take 64 (salt @ pw @ replicate 64 0x30)"

definition alice :: User where
  "alice = \<lparr>email = [0x61, 0x40, 0x62, 0x2E, 0x63, 0x64], avatarUri = [], name = [0x41],
            password = [0x73, 0x65, 0x63, 0x72, 0x65, 0x74]\<rparr>"

definition alice_short :: User where
  "alice_short = alice\<lparr>password := [0x31, 0x32, 0x33, 0x34, 0x35]\<rparr>"

definition empty_world :: world where
  "empty_world = \<lparr>docs = [], next_id = 0, calls = [], logged = []\<rparr>"

definition alice_doc :: UserDocument where
  "alice_doc = \<lparr>email = email alice, avatarUri = avatarUri alice, name = name alice,
                password = sample_hash (password alice) [0x78], doc_id = 0\<rparr>"

definition registered_world :: world where
  "registered_world =
     \<lparr>docs = [alice_doc], next_id = 1,
      calls = [FindOne (email alice), Create (alice\<lparr>password := sample_hash (password alice) [0x78]\<rparr>)],
      logged = [created_user_prefix @ email alice]\<rparr>"

definition alice_login :: LoginUserDto where
  "alice_login = \<lparr>login_email = email alice, login_password = password alice\<rparr>"

subsection \<open>Requests and services\<close>

text \<open>
  A movie service that knows the single movie \<open>m1\<close>; a movie service whose
  \<open>findById\<close> answers null although \<open>exists\<close> answers true, as when the
  document goes away between the two lookups; a comment service that stores every
  comment it is given; a middleware that only calls \<open>next()\<close>; a credential
  decoder; instances of the two middlewares above; and requests by the user \<open>bob\<close>.
\<close>

definition m1 :: js_string where "m1 = [0x6D, 0x31]"
definition m2 :: js_string where "m2 = [0x6D, 0x32]"
definition bob :: js_string where "bob = [0x62, 0x6F, 0x62]"

definition sample_movies :: "('s, nat) MovieServiceInterface" where
  "sample_movies =
     \<lparr>exists = (\<lambda>st i. i = m1), findById = (\<lambda>st i. if i = m1 then Some 1 else None)\<rparr>"


definition sample_comments :: "(js_string list, js_string, js_string) CommentServiceInterface" where
  "sample_comments = \<lparr>create = (\<lambda>st movie author text. Inr (Some text, st @ [text]))\<rparr>"

definition sample_message :: "js_string \<Rightarrow> js_string \<Rightarrow> js_string" where
  "sample_message entityName i = entityName @ i"

definition as_is :: "'a \<Rightarrow> 'a" where
  "as_is x = x"

definition call_next :: "('s, 'b, 'd) middleware" where
  "call_next st req = Next req"

definition sample_decode :: "js_string \<Rightarrow> RequestUser option" where
  "sample_decode credential = (if credential = bob then Some \<lparr>user_id = bob\<rparr> else None)"

definition sample_authorize :: "('s, 'b, 'd) middleware" where
  "sample_authorize =
     AuthorizeMiddleware sample_decode (js ''Unauthorized'') (js ''AuthorizeMiddleware'')"

definition sample_movieExists :: "('s, 'b, 'd) middleware" where
  "sample_movieExists =
     DocumentExistsMiddleware (exists sample_movies) (js ''Movie'') sample_message
       (js ''DocumentExistsMiddleware'')"


definition to_watch_by_bob :: "js_string \<Rightarrow> ToWatchDto Request" where
  "to_watch_by_bob movie =
     \<lparr>params_id = [], body = \<lparr>movieId = movie\<rparr>, authorization = Some bob,
      user = Some \<lparr>user_id = bob\<rparr>\<rparr>"

definition anonymous_comment :: "js_string Request" where
  "anonymous_comment =
     \<lparr>params_id = m2, body = [0x68, 0x69], authorization = None, user = None\<rparr>"

definition comment_by_bob :: "js_string Request" where
  "comment_by_bob =
     \<lparr>params_id = m2, body = [0x68, 0x69], authorization = Some bob, user = None\<rparr>"

definition get_by_bob :: "js_string \<Rightarrow> unit Request" where
  "get_by_bob movie =
     \<lparr>params_id = movie, body = (), authorization = Some bob, user = None\<rparr>"

definition authorized :: "'b Request \<Rightarrow> 'b Request" where
  "authorized req = req\<lparr>user := Some \<lparr>user_id = bob\<rparr>\<rparr>"

definition sample_comment_route :: "(js_string list, js_string, js_string) Route" where
  "sample_comment_route =
     route_createComment sample_authorize call_next call_next sample_movieExists
       sample_comments as_is"

definition two_posts :: "to_watch_request list" where
  "two_posts = [PostToWatch (to_watch_by_bob m2), PostToWatch (to_watch_by_bob m2)]"

definition no_lists :: to_watch_store where
  "no_lists = Map.empty"

definition no_comments :: "js_string list" where
  "no_comments = []"

section \<open>Properties of UserService\<close>

lemma find_append_new:
  "find P xs = None \<Longrightarrow> P d \<Longrightarrow> find P (xs @ [d]) = Some d"
  by (induction xs) (auto split: if_splits)

lemma find_Some_member: "find P xs = Some x \<Longrightarrow> x \<in> set xs \<and> P x"
  by (induction xs) (auto split: if_splits)

lemma create_Inr:
  assumes "UserService_create accepts createSHA256 dto salt st = (Inr doc, st')"
  shows "6 \<le> length (password dto)" "length (password dto) \<le> 12"
    "accepts (docs st) ((UserEntity dto)\<lparr>password := createSHA256 (password dto) salt\<rparr>)"
    "doc = \<lparr>email = email dto, avatarUri = avatarUri dto, name = name dto,
            password = createSHA256 (password dto) salt, doc_id = next_id st\<rparr>"
    "docs st' = docs st @ [doc]"
  using assms
  by (auto simp: UserService_create_def setPassword_def userModel_create_def Let_def
      UserEntity_def logger_info_def split: if_splits)

lemma findByEmail_result:
  "UserService_findByEmail e st =
     (find (\<lambda>d. email d = e) (docs st), st\<lparr>calls := calls st @ [FindOne e]\<rparr>)"
  by (simp add: UserService_findByEmail_def userModel_findOne_def)

text \<open>
  Claim C2. When the password of a create-user request has fewer than 6 or more than 12
  code units, \<open>UserService.create\<close> ends with the error thrown by \<open>setPassword\<close> and
  the state is the one it started from: no document is stored, the model of the
  collection has not been called and nothing has been logged. This holds whatever the
  store would accept and whatever the hash function is.
\<close>

theorem create_rejects_bad_password_length:
  "length (password dto) < 6 \<or> 12 < length (password dto) \<Longrightarrow>
   UserService_create accepts createSHA256 dto salt st =
     (Inl (Error password_length_message), st)"
  by (auto simp: UserService_create_def setPassword_def)

theorem create_rejects_bad_password_length_witness:
  "(length (password alice_short) < 6 \<or> 12 < length (password alice_short)) \<and>
   UserService_create accept_all sample_hash alice_short [0x78] empty_world =
     (Inl (Error password_length_message), empty_world)"
  using create_rejects_bad_password_length
    [of alice_short accept_all sample_hash "[0x78]" empty_world]
  by (simp add: alice_short_def alice_def)

lemma findOrCreate_finds_after:
  assumes "UserService_findOrCreate accepts createSHA256 dto salt st = (Inr u, st1)"
  shows "find (\<lambda>d. email d = email dto) (docs st1) = Some u"
proof (cases "find (\<lambda>d. email d = email dto) (docs st)")
  case None
  let ?st0 = "st\<lparr>calls := calls st @ [FindOne (email dto)]\<rparr>"
  from assms None have c: "UserService_create accepts createSHA256 dto salt ?st0 = (Inr u, st1)"
    by (simp add: UserService_findOrCreate_def findByEmail_result)
  have "docs st1 = docs st @ [u]" using create_Inr(5)[OF c] by simp
  moreover have "email u = email dto" using create_Inr(4)[OF c] by simp
  ultimately show ?thesis using None by (simp add: find_append_new)
next
  case (Some v)
  with assms show ?thesis
    by (auto simp: UserService_findOrCreate_def findByEmail_result)
qed

text \<open>
  Claim C3. \<open>findOrCreate\<close> is idempotent: once a call has returned a user, every
  later call with the same email (whatever the other fields of the request, the salt,
  the hash and what the store accepts) returns that same stored user, leaves the
  documents and the log as they are, and makes one call to the model, the lookup: no
  second document is created.
\<close>

theorem findOrCreate_idempotent:
  "UserService_findOrCreate accepts createSHA256 dto salt st = (Inr u, st1) \<Longrightarrow>
   email dto' = email dto \<Longrightarrow>
   fst (UserService_findOrCreate accepts' createSHA256' dto' salt' st1) = Inr u \<and>
   docs (snd (UserService_findOrCreate accepts' createSHA256' dto' salt' st1)) = docs st1 \<and>
   logged (snd (UserService_findOrCreate accepts' createSHA256' dto' salt' st1)) = logged st1 \<and>
   calls (snd (UserService_findOrCreate accepts' createSHA256' dto' salt' st1)) =
     calls st1 @ [FindOne (email dto')]"
  using findOrCreate_finds_after[of accepts createSHA256 dto salt st u st1]
  by (simp add: UserService_findOrCreate_def findByEmail_result)

lemma sample_create:
  "UserService_findOrCreate accept_all sample_hash alice [0x78] empty_world =
     (Inr alice_doc, registered_world)"
  by (simp add: UserService_findOrCreate_def findByEmail_result UserService_create_def
      setPassword_def userModel_create_def UserEntity_def logger_info_def Let_def
      accept_all_def alice_def empty_world_def alice_doc_def registered_world_def)

theorem findOrCreate_idempotent_witness:
  "UserService_findOrCreate accept_all sample_hash alice [0x78] empty_world =
     (Inr alice_doc, registered_world) \<and>
   email alice_short = email alice \<and>
   fst (UserService_findOrCreate accept_all sample_hash alice_short [0x79] registered_world) =
     Inr alice_doc \<and>
   docs (snd (UserService_findOrCreate accept_all sample_hash alice_short [0x79] registered_world)) =
     [alice_doc]"
proof -
  have e: "email alice_short = email alice"
    by (simp add: alice_short_def)
  show ?thesis
    using findOrCreate_idempotent [OF sample_create e, of accept_all sample_hash "[0x79]"] sample_create e
    by (simp add: registered_world_def)
qed

text \<open>
  Claim C6. \<open>verifyUser\<close> returns null exactly when no stored user has the given
  email or the salted hash of the supplied password differs from the password stored
  for the user found under that email; otherwise it returns that stored user. It
  stores nothing.
\<close>

theorem verifyUser_null_iff:
  "(fst (UserService_verifyUser createSHA256 dto salt st) = None \<longleftrightarrow>
      (\<forall>d \<in> set (docs st). email d \<noteq> login_email dto) \<or>
      (\<exists>u. fst (UserService_findByEmail (login_email dto) st) = Some u \<and>
           createSHA256 (login_password dto) salt \<noteq> password u)) \<and>
   (fst (UserService_verifyUser createSHA256 dto salt st) \<noteq> None \<longrightarrow>
      fst (UserService_verifyUser createSHA256 dto salt st) =
        fst (UserService_findByEmail (login_email dto) st) \<and>
      (\<exists>u \<in> set (docs st). fst (UserService_verifyUser createSHA256 dto salt st) = Some u \<and>
         email u = login_email dto)) \<and>
   docs (snd (UserService_verifyUser createSHA256 dto salt st)) = docs st"
  by (auto simp: UserService_verifyUser_def findByEmail_result verifyPassword_def find_None_iff
      split: option.splits dest: find_Some_member)

theorem verifyUser_null_iff_witness:
  "fst (UserService_verifyUser sample_hash alice_login [0x78] registered_world) = Some alice_doc \<and>
   fst (UserService_verifyUser sample_hash alice_login [0x79] registered_world) = None \<and>
   fst (UserService_verifyUser sample_hash alice_login [0x78] empty_world) = None \<and>
   alice_doc \<in> set (docs registered_world)"
proof -
  have a: "fst (UserService_verifyUser sample_hash alice_login [0x78] registered_world) = Some alice_doc"
    by (simp add: UserService_verifyUser_def findByEmail_result verifyPassword_def
        registered_world_def alice_doc_def alice_login_def)
  have b: "fst (UserService_findByEmail (login_email alice_login) registered_world) = Some alice_doc"
    by (simp add: findByEmail_result registered_world_def alice_doc_def alice_login_def)
  have c: "sample_hash (login_password alice_login) [0x79] \<noteq> password alice_doc"
    by (simp add: alice_doc_def alice_login_def alice_def sample_hash_def)
  have d: "\<forall>d \<in> set (docs empty_world). email d \<noteq> login_email alice_login"
    by (simp add: empty_world_def)
  from verifyUser_null_iff [of sample_hash alice_login "[0x78]" registered_world] a
  have "alice_doc \<in> set (docs registered_world)" by auto
  moreover from verifyUser_null_iff [of sample_hash alice_login "[0x79]" registered_world] b c
  have "fst (UserService_verifyUser sample_hash alice_login [0x79] registered_world) = None" by blast
  moreover from verifyUser_null_iff [of sample_hash alice_login "[0x78]" empty_world] d
  have "fst (UserService_verifyUser sample_hash alice_login [0x78] empty_world) = None" by blast
  ultimately show ?thesis using a by simp
qed

text \<open>
  Claim C7. After a successful \<open>create\<close> the document appended to the collection
  carries \<open>createSHA256(password, salt)\<close> in its password field. A SHA-256 digest
  in hexadecimal has 64 code units and an accepted password at most 12, so the stored
  field is not the raw password.
\<close>

theorem create_stores_hash:
  "UserService_create accepts createSHA256 dto salt st = (Inr doc, st') \<Longrightarrow>
   password doc = createSHA256 (password dto) salt \<and> docs st' = docs st @ [doc] \<and>
   (length (createSHA256 (password dto) salt) = 64 \<longrightarrow> password doc \<noteq> password dto)"
  using create_Inr[of accepts createSHA256 dto salt st doc st'] by auto

theorem create_stores_hash_witness:
  "fst (UserService_create accept_all sample_hash alice [0x78] empty_world) = Inr alice_doc \<and>
   length (sample_hash (password alice) [0x78]) = 64 \<and>
   password alice_doc = sample_hash (password alice) [0x78] \<and>
   docs (snd (UserService_create accept_all sample_hash alice [0x78] empty_world)) = [alice_doc] \<and>
   password alice_doc \<noteq> password alice"
proof -
  have h: "UserService_create accept_all sample_hash alice [0x78] empty_world =
      (Inr alice_doc, snd (UserService_create accept_all sample_hash alice [0x78] empty_world))"
    by (simp add: UserService_create_def setPassword_def userModel_create_def UserEntity_def
        logger_info_def Let_def accept_all_def alice_def empty_world_def alice_doc_def)
  have l: "length (sample_hash (password alice) [0x78]) = 64"
    by (simp add: sample_hash_def alice_def)
  have f: "fst (UserService_create accept_all sample_hash alice [0x78] empty_world) = Inr alice_doc"
    by (subst h) simp
  have e: "docs empty_world = []"
    by (simp add: empty_world_def)
  from create_stores_hash [OF h] l e
  have "password alice_doc = sample_hash (password alice) [0x78] \<and>
    docs (snd (UserService_create accept_all sample_hash alice [0x78] empty_world)) = [alice_doc] \<and>
    password alice_doc \<noteq> password alice"
    by auto
  with f l show ?thesis by blast
qed

section \<open>Properties of the email pattern\<close>

lemma nullable_iff: "nullable r \<longleftrightarrow> [] \<in> lang r"
  by (induction r) (auto simp: conc_def intro: star.star_nil)

lemma in_conc: "s \<in> conc A B \<longleftrightarrow> (\<exists>u v. s = u @ v \<and> u \<in> A \<and> v \<in> B)"
  by (auto simp: conc_def)

lemma cons_in_conc:
  "c # s \<in> conc A B \<longleftrightarrow>
     (\<exists>u v. s = u @ v \<and> c # u \<in> A \<and> v \<in> B) \<or> ([] \<in> A \<and> c # s \<in> B)"
proof
  assume "c # s \<in> conc A B"
  then obtain xs ys where xy: "c # s = xs @ ys" "xs \<in> A" "ys \<in> B"
    by (auto simp: conc_def)
  show "(\<exists>u v. s = u @ v \<and> c # u \<in> A \<and> v \<in> B) \<or> ([] \<in> A \<and> c # s \<in> B)"
  proof (cases xs)
    case Nil
    with xy show ?thesis by simp
  next
    case (Cons x u)
    with xy show ?thesis by auto
  qed
next
  assume "(\<exists>u v. s = u @ v \<and> c # u \<in> A \<and> v \<in> B) \<or> ([] \<in> A \<and> c # s \<in> B)"
  then show "c # s \<in> conc A B"
  proof
    assume "\<exists>u v. s = u @ v \<and> c # u \<in> A \<and> v \<in> B"
    then obtain u v where "s = u @ v" "c # u \<in> A" "v \<in> B" by blast
    then have "(c # u) @ v \<in> conc A B" unfolding conc_def by blast
    with \<open>s = u @ v\<close> show ?thesis by simp
  next
    assume "[] \<in> A \<and> c # s \<in> B"
    then have "[] @ (c # s) \<in> conc A B" unfolding conc_def by blast
    then show ?thesis by simp
  qed
qed

lemma cons_in_star:
  "c # s \<in> star A \<longleftrightarrow> (\<exists>u v. s = u @ v \<and> c # u \<in> A \<and> v \<in> star A)"
proof
  assume "c # s \<in> star A"
  then show "\<exists>u v. s = u @ v \<and> c # u \<in> A \<and> v \<in> star A"
  proof (induction "c # s" rule: star.induct)
    case (star_app xs ys)
    show ?case
    proof (cases xs)
      case Nil
      with star_app show ?thesis by simp
    next
      case (Cons x u)
      with star_app show ?thesis by auto
    qed
  qed
next
  assume "\<exists>u v. s = u @ v \<and> c # u \<in> A \<and> v \<in> star A"
  then obtain u v where "s = u @ v" "c # u \<in> A" "v \<in> star A" by blast
  then have "(c # u) @ v \<in> star A" by (blast intro: star.star_app)
  with \<open>s = u @ v\<close> show "c # s \<in> star A" by simp
qed

lemma tail_conc:
  "{s. c # s \<in> conc A B} =
     conc {s. c # s \<in> A} B \<union> (if [] \<in> A then {s. c # s \<in> B} else {})"
proof -
  have "\<And>s. s \<in> conc {s. c # s \<in> A} B \<longleftrightarrow> (\<exists>u v. s = u @ v \<and> c # u \<in> A \<and> v \<in> B)"
    by (simp add: in_conc)
  then show ?thesis
    by (auto simp: cons_in_conc)
qed

lemma tail_star: "{s. c # s \<in> star A} = conc {s. c # s \<in> A} (star A)"
proof -
  have "\<And>s. s \<in> conc {s. c # s \<in> A} (star A) \<longleftrightarrow>
          (\<exists>u v. s = u @ v \<and> c # u \<in> A \<and> v \<in> star A)"
    by (simp add: in_conc)
  then show ?thesis
    by (auto simp: cons_in_star)
qed

lemma lang_deriv: "lang (deriv c r) = {s. c # s \<in> lang r}"
proof (induction r)
  case (Cat r1 r2)
  then show ?case by (simp add: tail_conc nullable_iff)
next
  case (Star r)
  then show ?case by (simp add: tail_star)
qed auto

text \<open>The matcher decides membership in the language of the pattern.\<close>

lemma matches_iff_lang: "matches r s \<longleftrightarrow> s \<in> lang r"
  by (induction s arbitrary: r) (simp_all add: nullable_iff lang_deriv)

text \<open>The pattern is not trivial: it accepts an address and refuses a bare word.\<close>

lemma email_match_address: "email_match [0x61, 0x40, 0x62, 0x2E, 0x63, 0x64]"
  unfolding email_match_def by code_simp

lemma email_match_refuses_word: "\<not> email_match [0x61, 0x62, 0x63]"
  unfolding email_match_def by code_simp

text \<open>
  Claim C10. The pattern declared on \<open>email\<close> accepts the empty string: the group
  between \<open>^\<close> and \<open>$\<close> carries the quantifier \<open>?\<close>, so the empty string is in
  its language and the match succeeds.
\<close>

theorem email_pattern_accepts_empty:
  "email_match [] \<and> [] \<in> lang email_pattern \<and> (\<exists>r. email_pattern = Opt r)"
proof -
  have "email_match []"
    by (simp add: email_match_def email_pattern_def Opt_def)
  moreover from this have "[] \<in> lang email_pattern"
    by (simp add: email_match_def matches_iff_lang)
  moreover have "\<exists>r. email_pattern = Opt r"
    unfolding email_pattern_def by (rule exI) (rule refl)
  ultimately show ?thesis by blast
qed

section \<open>Properties of MovieController\<close>

lemma run_stack_run_middlewares:
  "run_stack mws h req st =
     (case run_middlewares mws st req of
        Next req' \<Rightarrow> h req' st
      | Sent res \<Rightarrow> (Inr res, st)
      | Failed e \<Rightarrow> (Inl e, st))"
  by (induction mws arbitrary: req) (auto split: outcome.splits)

lemma run_stack_state:
  "snd (run_stack mws h req st) = st \<or> (\<exists>req'. snd (run_stack mws h req st) = snd (h req' st))"
  by (auto simp: run_stack_run_middlewares split: outcome.splits)





text \<open>
  Claim C9. On the route GET /to-watch, when the authorization middleware has called
  through with a user on the request and the to-watch service answers null for that
  user, the handler responds 200 with the empty list, and the state is untouched.
\<close>

theorem getToWatchList_route_empty:
  "authorizationMiddleware st req = Next req' \<Longrightarrow> user req' = Some u \<Longrightarrow>
   getToWatch toWatchService st (user_id u) = None \<Longrightarrow>
   addRoute (route_getToWatchList authorizationMiddleware toWatchService project) req st =
     (Inr \<lparr>statusCode = 200, contentType = Some (js ''application/json''), data = Some []\<rparr>,
      st)"
  by (simp add: addRoute_def route_getToWatchList_def getToWatchList_def fillDto_def
      ok_def send_def OK_def)

theorem getToWatchList_route_empty_witness:
  "sample_authorize no_lists (get_by_bob []) =
     (Next (authorized (get_by_bob [])) :: (unit, js_string list) outcome) \<and>
   user (authorized (get_by_bob [])) = Some \<lparr>user_id = bob\<rparr> \<and>
   getToWatch (ToWatchService False) no_lists (user_id \<lparr>user_id = bob\<rparr>) = None \<and>
   addRoute (route_getToWatchList sample_authorize (ToWatchService False) as_is)
       (get_by_bob []) no_lists =
     (Inr \<lparr>statusCode = 200, contentType = Some (js ''application/json''), data = Some []\<rparr>,
      no_lists)"
proof -
  have a: "sample_authorize no_lists (get_by_bob []) =
     (Next (authorized (get_by_bob [])) :: (unit, js_string list) outcome)"
    by (simp add: sample_authorize_def AuthorizeMiddleware_def sample_decode_def
        get_by_bob_def authorized_def)
  have b: "user (authorized (get_by_bob [])) = Some \<lparr>user_id = bob\<rparr>"
    by (simp add: authorized_def)
  have c: "getToWatch (ToWatchService False) no_lists (user_id \<lparr>user_id = bob\<rparr>) = None"
    by (simp add: ToWatchService_def ToWatchService_getToWatch_def no_lists_def)
  from getToWatchList_route_empty [of sample_authorize no_lists "get_by_bob []"
      "authorized (get_by_bob [])" "\<lparr>user_id = bob\<rparr>" "ToWatchService False" as_is] a b c
  show ?thesis by simp
qed

text \<open>
  Whatever the services are, both to-watch handlers throw the 404 as soon as
  \<open>movieService.exists\<close> answers true, and reach the to-watch service only when it
  answers false.
\<close>

lemma addToToWatchList_existing_movie:
  "exists movieService st (movieId (body req)) \<Longrightarrow>
   addToToWatchList movieService toWatchService req st =
     (Inl (HttpError NOT_FOUND movie_not_found (js ''MovieController'')), st)"
  by (simp add: addToToWatchList_def)

lemma deleteFromToWatchList_existing_movie:
  "exists movieService st (movieId (body req)) \<Longrightarrow>
   deleteFromToWatchList movieService toWatchService req st =
     (Inl (HttpError NOT_FOUND movie_not_found (js ''MovieController'')), st)"
  by (simp add: deleteFromToWatchList_def)

text \<open>
  Claim C1, at a concrete input. The guard of \<open>addToToWatchList\<close> and of
  \<open>deleteFromToWatchList\<close> throws Not-Found when \<open>movieService.exists\<close> answers
  true: for the existing movie \<open>m1\<close> both handlers end with the 404 and leave the
  lists alone, and for the unknown id \<open>m2\<close> both respond 204, the first after putting
  \<open>m2\<close> on the list of the user.
\<close>

theorem to_watch_guard_inverted:
  "exists sample_movies no_lists (movieId (body (to_watch_by_bob m1))) \<and>
   (addToToWatchList sample_movies (ToWatchService False) (to_watch_by_bob m1) no_lists
      :: (error + unit Response) \<times> to_watch_store) =
     (Inl (HttpError NOT_FOUND movie_not_found (js ''MovieController'')), no_lists) \<and>
   (deleteFromToWatchList sample_movies (ToWatchService False) (to_watch_by_bob m1) no_lists
      :: (error + unit Response) \<times> to_watch_store) =
     (Inl (HttpError NOT_FOUND movie_not_found (js ''MovieController'')), no_lists) \<and>
   \<not> exists sample_movies no_lists (movieId (body (to_watch_by_bob m2))) \<and>
   fst (addToToWatchList sample_movies (ToWatchService False) (to_watch_by_bob m2) no_lists
      :: (error + unit Response) \<times> to_watch_store) = Inr noContent \<and>
   to_watch_of (snd (addToToWatchList sample_movies (ToWatchService False)
      (to_watch_by_bob m2) no_lists :: (error + unit Response) \<times> to_watch_store)) bob = [m2] \<and>
   fst (deleteFromToWatchList sample_movies (ToWatchService False) (to_watch_by_bob m2)
      no_lists :: (error + unit Response) \<times> to_watch_store) = Inr noContent"
  by (simp add: addToToWatchList_def deleteFromToWatchList_def sample_movies_def
      ToWatchService_def ToWatchService_addToToWatch_def ToWatchService_deleteFromToWatch_def
      to_watch_by_bob_def to_watch_of_def m1_def m2_def no_lists_def)

text \<open>
  Claim C8, as amended. On the route POST /:id/comments the existence check is the
  fourth middleware. For a request whose movie id refers to no movie, the state is
  untouched, so no comment is stored and the handler has not run; the request ends
  with the 404 of the existence check when the authorization, object-id and DTO
  middlewares have called through, and otherwise with what the first of them that ended
  the chain has sent or thrown.
\<close>

theorem createComment_route_without_movie:
  assumes "\<forall>req'. run_middlewares [authorizationMiddleware, validateObjectIdMiddleware,
              validateCommentDtoMiddleware] st req = Next req' \<longrightarrow>
            \<not> exists movieService st (params_id req')"
  shows "addRoute (route_createComment authorizationMiddleware validateObjectIdMiddleware
           validateCommentDtoMiddleware
           (DocumentExistsMiddleware (exists movieService) entityName message origin)
           commentService project) req st =
         (case run_middlewares [authorizationMiddleware, validateObjectIdMiddleware,
                 validateCommentDtoMiddleware] st req of
            Next req' \<Rightarrow>
              (Inl (HttpError NOT_FOUND (message entityName (params_id req')) origin), st)
          | Sent res \<Rightarrow> (Inr res, st)
          | Failed e \<Rightarrow> (Inl e, st))"
  using assms
  by (auto simp: addRoute_def route_createComment_def DocumentExistsMiddleware_def
      split: outcome.splits)

theorem createComment_route_without_movie_witness:
  "run_middlewares [sample_authorize, call_next, call_next] no_comments comment_by_bob =
     (Next (authorized comment_by_bob) :: (js_string, js_string) outcome) \<and>
   \<not> exists sample_movies no_comments (params_id (authorized comment_by_bob)) \<and>
   addRoute sample_comment_route comment_by_bob no_comments =
     (Inl (HttpError NOT_FOUND (sample_message (js ''Movie'') m2)
        (js ''DocumentExistsMiddleware'')), no_comments)"
proof -
  have a: "run_middlewares [sample_authorize, call_next, call_next] no_comments comment_by_bob =
     (Next (authorized comment_by_bob) :: (js_string, js_string) outcome)"
    by (simp add: sample_authorize_def AuthorizeMiddleware_def sample_decode_def call_next_def
        comment_by_bob_def authorized_def)
  have h: "\<forall>req'. run_middlewares [sample_authorize, call_next, call_next] no_comments
        comment_by_bob = (Next req' :: (js_string, js_string) outcome) \<longrightarrow>
      \<not> exists sample_movies no_comments (params_id req')"
    unfolding a
    by (simp add: sample_movies_def comment_by_bob_def authorized_def m1_def m2_def)
  have r: "addRoute sample_comment_route comment_by_bob no_comments =
     (Inl (HttpError NOT_FOUND (sample_message (js ''Movie'') m2)
        (js ''DocumentExistsMiddleware'')), no_comments)"
    using createComment_route_without_movie [OF h, of "js ''Movie''" sample_message
      "js ''DocumentExistsMiddleware''" sample_comments as_is]
    unfolding a sample_comment_route_def sample_movieExists_def
    by (simp add: comment_by_bob_def authorized_def)
  have n: "\<not> exists sample_movies no_comments (params_id (authorized comment_by_bob))"
    using h a by blast
  from a n r show ?thesis by blast
qed

text \<open>
  The claim as it was stated fails for a request without credential: the movie does not
  exist, the authorization middleware ends the chain first, and the status is 401.
\<close>

theorem createComment_route_unauthorized:
  "\<not> exists sample_movies no_comments (params_id anonymous_comment) \<and>
   addRoute sample_comment_route anonymous_comment no_comments =
     (Inl (HttpError UNAUTHORIZED (js ''Unauthorized'') (js ''AuthorizeMiddleware'')),
      no_comments) \<and>
   response_status (fst (addRoute sample_comment_route anonymous_comment no_comments)) =
     Some 401 \<and>
   response_status (fst (addRoute sample_comment_route anonymous_comment no_comments)) \<noteq>
     Some NOT_FOUND"
  by (simp add: addRoute_def sample_comment_route_def route_createComment_def
      sample_authorize_def AuthorizeMiddleware_def sample_movies_def anonymous_comment_def
      response_status_def UNAUTHORIZED_def NOT_FOUND_def m1_def m2_def)

subsection \<open>The to-watch list\<close>

lemma add_keeps_distinct:
  assumes "\<forall>u. distinct (to_watch_of st u)"
    and "ToWatchService_addToToWatch strict st userId movie = Inr st'"
  shows "distinct (to_watch_of st' u)"
proof (cases "st userId")
  case None
  with assms(2) have "st' = st(userId \<mapsto> [movie])"
    by (simp add: ToWatchService_addToToWatch_def)
  with assms(1) [rule_format, of u] show ?thesis
    by (simp add: to_watch_of_def)
next
  case (Some ids)
  from assms(1) [rule_format, of userId] Some have d: "distinct ids"
    by (simp add: to_watch_of_def)
  show ?thesis
  proof (cases "movie \<in> set ids")
    case True
    with assms(2) Some have "st' = st"
      by (simp add: ToWatchService_addToToWatch_def split: if_splits)
    with assms(1) show ?thesis by simp
  next
    case False
    with assms(2) Some have "st' = st(userId \<mapsto> ids @ [movie])"
      by (simp add: ToWatchService_addToToWatch_def)
    with assms(1) [rule_format, of u] d False show ?thesis
      by (simp add: to_watch_of_def)
  qed
qed

lemma delete_keeps_distinct:
  assumes "\<forall>u. distinct (to_watch_of st u)"
    and "ToWatchService_deleteFromToWatch strict st userId movie = Inr st'"
  shows "distinct (to_watch_of st' u)"
proof (cases "st userId")
  case None
  with assms(2) have "st' = st"
    by (simp add: ToWatchService_deleteFromToWatch_def split: if_splits)
  with assms(1) show ?thesis by simp
next
  case (Some ids)
  from assms(1) [rule_format, of userId] Some have d: "distinct ids"
    by (simp add: to_watch_of_def)
  show ?thesis
  proof (cases "movie \<in> set ids")
    case True
    with assms(2) Some have "st' = st(userId \<mapsto> removeAll movie ids)"
      by (simp add: ToWatchService_deleteFromToWatch_def)
    with assms(1) [rule_format, of u] d show ?thesis
      by (simp add: to_watch_of_def distinct_removeAll)
  next
    case False
    with assms(2) Some have "st' = st"
      by (simp add: ToWatchService_deleteFromToWatch_def split: if_splits)
    with assms(1) show ?thesis by simp
  qed
qed

lemma addToToWatchList_keeps_distinct:
  assumes "\<forall>u. distinct (to_watch_of st u)"
  shows "distinct (to_watch_of
           (snd (addToToWatchList movieService (ToWatchService strict) req st)) u)"
  using assms add_keeps_distinct [OF assms]
  by (auto simp: addToToWatchList_def ToWatchService_def split: option.splits sum.splits)

lemma deleteFromToWatchList_keeps_distinct:
  assumes "\<forall>u. distinct (to_watch_of st u)"
  shows "distinct (to_watch_of
           (snd (deleteFromToWatchList movieService (ToWatchService strict) req st)) u)"
  using assms delete_keeps_distinct [OF assms]
  by (auto simp: deleteFromToWatchList_def ToWatchService_def split: option.splits sum.splits)

lemma serve_to_watch_keeps_distinct:
  "\<forall>u. distinct (to_watch_of st u) \<Longrightarrow>
   \<forall>u. distinct (to_watch_of
     (serve_to_watch auth validateAdd validateDelete movieService (ToWatchService strict)
        reqs st) u)"
proof (induction reqs arbitrary: st)
  case Nil
  then show ?case by simp
next
  case (Cons r reqs)
  show ?case
  proof (cases r)
    case (PostToWatch req)
    let ?st' = "snd (addRoute (route_addToToWatchList auth validateAdd movieService
        (ToWatchService strict)) req st)"
    have "\<forall>u. distinct (to_watch_of ?st' u)"
      using run_stack_state [of "[auth, validateAdd]"
          "addToToWatchList movieService (ToWatchService strict)" req st]
        addToToWatchList_keeps_distinct [OF Cons.prems] Cons.prems
      by (auto simp: addRoute_def route_addToToWatchList_def simp del: run_stack.simps)
    from Cons.IH [OF this] PostToWatch show ?thesis by simp
  next
    case (DeleteToWatch req)
    let ?st' = "snd (addRoute (route_deleteFromToWatchList auth validateDelete movieService
        (ToWatchService strict)) req st)"
    have "\<forall>u. distinct (to_watch_of ?st' u)"
      using run_stack_state [of "[auth, validateDelete]"
          "deleteFromToWatchList movieService (ToWatchService strict)" req st]
        deleteFromToWatchList_keeps_distinct [OF Cons.prems] Cons.prems
      by (auto simp: addRoute_def route_deleteFromToWatchList_def simp del: run_stack.simps)
    from Cons.IH [OF this] DeleteToWatch show ?thesis by simp
  qed
qed

text \<open>
  Claim C4. Starting from lists without repetition (the empty collection is one), after
  any sequence of requests to POST /to-watch and DELETE /to-watch, whatever the
  middlewares and the movie service answer and whichever of the two behaviours the
  to-watch service has on a repeated add, the list of every user holds each movie id at
  most once.
\<close>

theorem to_watch_list_distinct:
  "\<forall>u. distinct (to_watch_of st u) \<Longrightarrow>
   distinct (to_watch_of
     (serve_to_watch auth validateAdd validateDelete movieService (ToWatchService strict)
        reqs st) userId)"
  using serve_to_watch_keeps_distinct by blast

theorem to_watch_list_distinct_witness:
  "(\<forall>u. distinct (to_watch_of no_lists u)) \<and>
   to_watch_of
     (serve_to_watch call_next call_next call_next sample_movies (ToWatchService False)
        two_posts no_lists) bob = [m2] \<and>
   distinct (to_watch_of
     (serve_to_watch call_next call_next call_next sample_movies (ToWatchService False)
        two_posts no_lists) bob)"
proof -
  have h: "\<forall>u. distinct (to_watch_of no_lists u)"
    by (simp add: to_watch_of_def no_lists_def)
  have v: "to_watch_of
     (serve_to_watch call_next call_next call_next sample_movies (ToWatchService False)
        two_posts no_lists) bob = [m2]"
    by (simp add: two_posts_def addRoute_def route_addToToWatchList_def call_next_def
        addToToWatchList_def sample_movies_def ToWatchService_def
        ToWatchService_addToToWatch_def to_watch_by_bob_def to_watch_of_def m1_def m2_def
        no_lists_def)
  from to_watch_list_distinct [OF h, of call_next call_next call_next sample_movies False
      two_posts bob] h v
  show ?thesis by simp
qed

end
